theory Spec2Isabelle
  imports Complex_Main
begin

section \<open>Numbers, vectors and poses\<close>

text \<open>
  The edges of \<^verbatim>\<open>edge_kinematics.h\<close> compute with C++ \<^verbatim>\<open>double\<close>. The embedding reads
  a \<^verbatim>\<open>double\<close> as a real number: arithmetic is exact, and there is no rounding, no
  overflow, no infinity and no NaN. \<^verbatim>\<open>Eigen::Vector2d\<close> is a pair of reals, with
  \<^verbatim>\<open>v[0]\<close> its first and \<^verbatim>\<open>v[1]\<close> its second component.
\<close>

type_synonym Vector2d = "real \<times> real"

definition vminus :: "Vector2d \<Rightarrow> Vector2d \<Rightarrow> Vector2d" where
  \<comment> \<open>\<^verbatim>\<open>a - b\<close> on vectors\<close>
  "vminus a b = (fst a - fst b, snd a - snd b)"

definition dot :: "Vector2d \<Rightarrow> Vector2d \<Rightarrow> real" where
  \<comment> \<open>\<^verbatim>\<open>a.dot(b)\<close>\<close>
  "dot a b = fst a * fst b + snd a * snd b"

definition norm_vec :: "Vector2d \<Rightarrow> real" where
  \<comment> \<open>\<^verbatim>\<open>a.norm()\<close>, the Euclidean length\<close>
  "norm_vec a = sqrt (fst a * fst a + snd a * snd a)"

text \<open>
  \<^verbatim>\<open>VertexPose\<close> is declared in \<^verbatim>\<open>vertex_pose.h\<close>; the edges read its
  \<^verbatim>\<open>position()\<close> and its \<^verbatim>\<open>theta()\<close> only.
\<close>

record VertexPose =
  position :: Vector2d
  theta :: real

text \<open>
  Of \<^verbatim>\<open>TebConfig\<close> (declared in \<^verbatim>\<open>teb_config.h\<close>) the edges read
  \<^verbatim>\<open>robot.min_turning_radius\<close> only.
\<close>

record Robot =
  min_turning_radius :: real

record TebConfig =
  robot :: Robot

section \<open>Helpers that the edges call\<close>

text \<open>
  Modelled from the spec: \<^verbatim>\<open>penaltyBoundFromBelow\<close> of \<^verbatim>\<open>penalties.h\<close>, which is not
  among the sources. The specification gives it as 0 when the value is at least
  \<open>lower_bound + epsilon\<close>, and otherwise a strictly positive, continuous magnitude that
  decreases in the value and, with zero epsilon, equals \<open>lower_bound - value\<close>
  (\<open>min_turning_radius - r\<close> in the car-like test of the specification).
\<close>

definition penaltyBoundFromBelow :: "real \<Rightarrow> real \<Rightarrow> real \<Rightarrow> real" where
  "penaltyBoundFromBelow var a epsilon =
     (if var \<ge> a + epsilon then 0 else - var + (a + epsilon))"

text \<open>
  Modelled from the spec: \<^verbatim>\<open>penaltyBoundFromBelowDerivative\<close> of \<^verbatim>\<open>penalties.h\<close>, not
  among the sources: the derivative of the penalty with respect to the value, with the
  value 0 on the side of the kink where the penalty is 0.
\<close>

definition penaltyBoundFromBelowDerivative :: "real \<Rightarrow> real \<Rightarrow> real \<Rightarrow> real" where
  "penaltyBoundFromBelowDerivative var a epsilon =
     (if var \<ge> a + epsilon then 0 else - 1)"

text \<open>
  Modelled from the spec: \<^verbatim>\<open>g2o::sign\<close> of the host math library, not among the
  sources: the sign with the defined tie value 0 at exactly 0.
\<close>

definition sign :: "real \<Rightarrow> real" where
  "sign v = (if v > 0 then 1 else if v < 0 then - 1 else 0)"

text \<open>
  Modelled from the spec: \<^verbatim>\<open>g2o::normalize_theta\<close> of the host math library, not among
  the sources: the angle brought into \<open>(-\<pi>, \<pi>]\<close> by a multiple of \<open>2\<pi>\<close>.
\<close>

definition normalize_theta :: "real \<Rightarrow> real" where
  "normalize_theta t = t - 2 * pi * of_int \<lceil>(t - pi) / (2 * pi)\<rceil>"

section \<open>The edge object\<close>

text \<open>
  Both classes derive from \<^verbatim>\<open>g2o::BaseBinaryEdge<2, double, VertexPose, VertexPose>\<close> and
  add one member, the pointer \<^verbatim>\<open>cfg_\<close>. The record holds the members the methods of
  the header touch. A matrix is a function of its index pair. The array \<^verbatim>\<open>_vertices\<close>
  is a function of the index; a vertex pointer is \<open>None\<close> when it is \<^verbatim>\<open>NULL\<close> and
  \<open>Some\<close> of the pose it points to otherwise. The configuration pointer is an
  address, \<open>NULL\<close> being address 0, and the configurations live in a store; the
  member \<^verbatim>\<open>cfg_\<close> is the field \<open>cfg\<close>.
\<close>

type_synonym addr = nat

definition NULL :: addr where
  "NULL = 0"

type_synonym memory = "addr \<rightharpoonup> TebConfig"

record Edge =
  measurement :: real
  information :: "nat \<times> nat \<Rightarrow> real"
  error :: Vector2d
  vertices :: "nat \<Rightarrow> VertexPose option"
  jacobianOplusXi :: "nat \<times> nat \<Rightarrow> real"
  jacobianOplusXj :: "nat \<times> nat \<Rightarrow> real"
  cfg :: addr

text \<open>
  What stops an evaluation. \<open>Assertion_failed\<close> is a \<^verbatim>\<open>ROS_ASSERT_MSG\<close> whose
  condition is false (assertions enabled). \<open>Null_vertex\<close> is the dereference of a
  \<^verbatim>\<open>NULL\<close> vertex pointer and \<open>Invalid_config\<close> the dereference of a configuration
  pointer at which the store holds nothing. \<open>Zero_divisor\<close> is a division whose divisor
  is 0: in C++ its result is an infinity or NaN, which a real number cannot be, so the
  model stops there.
\<close>

datatype fault = Assertion_failed | Null_vertex | Invalid_config | Zero_divisor

definition divide_checked :: "real \<Rightarrow> real \<Rightarrow> fault + real" where
  "divide_checked a b = (if b = 0 then Inl Zero_divisor else Inr (a / b))"

text \<open>
  The constructors assign the measurement and the two vertex pointers and nothing else.
  The argument is the storage the object is built in: every member the constructor does
  not assign, \<^verbatim>\<open>cfg_\<close> among them, keeps what the storage held.
\<close>

definition EdgeKinematicsDiffDrive :: "Edge \<Rightarrow> Edge" where
  "EdgeKinematicsDiffDrive storage =
     storage\<lparr>measurement := 0, vertices := (vertices storage)(0 := None, 1 := None)\<rparr>"

definition EdgeKinematicsCarlike :: "Edge \<Rightarrow> Edge" where
  "EdgeKinematicsCarlike storage =
     storage\<lparr>measurement := 0, vertices := (vertices storage)(0 := None, 1 := None)\<rparr>"

definition setTebConfig :: "addr \<Rightarrow> Edge \<Rightarrow> Edge" where
  \<comment> \<open>\<^verbatim>\<open>cfg_ = &cfg\<close>; the argument is the address of the referenced configuration\<close>
  "setTebConfig a e = e\<lparr>cfg := a\<rparr>"

definition setVertex :: "nat \<Rightarrow> VertexPose \<Rightarrow> Edge \<Rightarrow> Edge" where
  \<comment> \<open>the base class's \<^verbatim>\<open>setVertex(i, v)\<close>: \<^verbatim>\<open>_vertices[i] = v\<close>\<close>
  "setVertex i v e = e\<lparr>vertices := (vertices e)(i := Some v)\<rparr>"

section \<open>The differential-drive edge\<close>

text \<open>
  \<^verbatim>\<open>EdgeKinematicsDiffDrive::computeError\<close>, up to its closing assertion that both
  components are finite, which \<open>DiffDrive_computeError_asserted\<close> adds below.
\<close>

definition DiffDrive_computeError :: "Edge \<Rightarrow> fault + Edge" where
  "DiffDrive_computeError e =
     (if cfg e = NULL then Inl Assertion_failed
      else case (vertices e 0, vertices e 1) of
        (Some conf1, Some conf2) \<Rightarrow>
          (let deltaS = vminus (position conf2) (position conf1);
               error0 = \<bar>(cos (theta conf1) + cos (theta conf2)) * snd deltaS
                         - (sin (theta conf1) + sin (theta conf2)) * fst deltaS\<bar>;
               angle_vec = (cos (theta conf1), sin (theta conf1));
               error1 = penaltyBoundFromBelow (dot deltaS angle_vec) 0 0
           in Inr (e\<lparr>error := (error0, error1)\<rparr>))
      | _ \<Rightarrow> Inl Null_vertex)"

text \<open>\<^verbatim>\<open>EdgeKinematicsDiffDrive::linearizeOplus\<close> (built with \<^verbatim>\<open>USE_ANALYTIC_JACOBI\<close>).\<close>

definition DiffDrive_linearizeOplus :: "Edge \<Rightarrow> fault + Edge" where
  "DiffDrive_linearizeOplus e =
     (if cfg e = NULL then Inl Assertion_failed
      else case (vertices e 0, vertices e 1) of
        (Some conf1, Some conf2) \<Rightarrow>
          (let deltaS = vminus (position conf2) (position conf1);
               cos1 = cos (theta conf1);
               cos2 = cos (theta conf2);
               sin1 = sin (theta conf1);
               sin2 = sin (theta conf2);
               aux1 = sin1 + sin2;
               aux2 = cos1 + cos2;
               dd_error_1 = fst deltaS * cos1;
               dd_error_2 = snd deltaS * sin1;
               dd_dev = penaltyBoundFromBelowDerivative (dd_error_1 + dd_error_2) 0 0;
               dev_nh_abs = sign ((cos (theta conf1) + cos (theta conf2)) * snd deltaS
                                  - (sin (theta conf1) + sin (theta conf2)) * fst deltaS);
               Xi = (jacobianOplusXi e)
                      ((0, 0) := aux1 * dev_nh_abs,
                       (0, 1) := - aux2 * dev_nh_abs,
                       (1, 0) := - cos1 * dd_dev,
                       (1, 1) := - sin1 * dd_dev,
                       (0, 2) := (- dd_error_2 - dd_error_1) * dev_nh_abs,
                       (1, 2) := (- sin1 * fst deltaS + cos1 * snd deltaS) * dd_dev);
               Xj = (jacobianOplusXj e)
                      ((0, 0) := - aux1 * dev_nh_abs,
                       (0, 1) := aux2 * dev_nh_abs,
                       (1, 0) := cos1 * dd_dev,
                       (1, 1) := sin1 * dd_dev,
                       (0, 2) := (- sin2 * snd deltaS - cos2 * fst deltaS) * dev_nh_abs,
                       (1, 2) := 0)
           in Inr (e\<lparr>jacobianOplusXi := Xi, jacobianOplusXj := Xj\<rparr>))
      | _ \<Rightarrow> Inl Null_vertex)"

section \<open>The car-like edge\<close>

text \<open>
  \<^verbatim>\<open>EdgeKinematicsCarlike::computeError\<close>. The two \<^verbatim>\<open>ROS_INFO_STREAM\<close> lines only log
  and are left out; the closing finiteness assertion is added by
  \<open>Carlike_computeError_asserted\<close> below.
\<close>

definition Carlike_computeError :: "memory \<Rightarrow> Edge \<Rightarrow> fault + Edge" where
  "Carlike_computeError mem e =
     (if cfg e = NULL then Inl Assertion_failed
      else case (vertices e 0, vertices e 1) of
        (Some conf1, Some conf2) \<Rightarrow>
          (let deltaS = vminus (position conf2) (position conf1);
               error0 = \<bar>(cos (theta conf1) + cos (theta conf2)) * snd deltaS
                         - (sin (theta conf1) + sin (theta conf2)) * fst deltaS\<bar>;
               omega_t = normalize_theta (theta conf2 - theta conf1)
           in if omega_t = 0 then Inr (e\<lparr>error := (error0, 0)\<rparr>)
              else (case divide_checked (norm_vec deltaS) \<bar>omega_t\<bar> of
                      Inl f \<Rightarrow> Inl f
                    | Inr radius \<Rightarrow>
                        (case mem (cfg e) of
                           None \<Rightarrow> Inl Invalid_config
                         | Some c \<Rightarrow>
                             Inr (e\<lparr>error := (error0,
                                    penaltyBoundFromBelow radius
                                      (min_turning_radius (robot c)) 0)\<rparr>))))
      | _ \<Rightarrow> Inl Null_vertex)"

section \<open>The range of double and the closing assertion\<close>






section \<open>Text streams\<close>

text \<open>
  A stream is a sequence of lexical items: \<open>Num r\<close> is the text of the number \<open>r\<close> (a
  number is taken to be written and parsed exactly), \<open>Txt t\<close> is any other text, which
  after its leading white space does not begin a number. An input stream has its
  \<^verbatim>\<open>failbit\<close>; an output stream has \<^verbatim>\<open>good()\<close>.
\<close>

datatype item = Num real | Txt string

record istream =
  content :: "item list"
  failbit :: bool

record ostream =
  written :: "item list"
  good :: bool

datatype cxx = Cxx03 | Cxx11

definition isspace :: "char \<Rightarrow> bool" where
  "isspace c = (c \<in> set [CHR '' '', CHR 0x09, CHR 0x0A, CHR 0x0B, CHR 0x0C, CHR 0x0D])"

fun skipws :: "item list \<Rightarrow> item list" where
  "skipws [] = []"
| "skipws (Num r # xs) = Num r # xs"
| "skipws (Txt t # xs) =
     (case dropWhile isspace t of [] \<Rightarrow> skipws xs | c # cs \<Rightarrow> Txt (c # cs) # xs)"

text \<open>
  \<^verbatim>\<open>is >> v\<close> for a \<^verbatim>\<open>double\<close> \<open>v\<close>. On a stream that has failed nothing happens. At
  the end of the input the stream fails and \<open>v\<close> is kept. On text that is no number the
  stream fails, and \<open>v\<close> is kept under C++03 and set to 0 from C++11 on.
\<close>

definition extract_double :: "cxx \<Rightarrow> istream \<Rightarrow> real \<Rightarrow> real \<times> istream" where
  "extract_double std s v =
     (if failbit s then (v, s)
      else case skipws (content s) of
        [] \<Rightarrow> (v, s\<lparr>content := [], failbit := True\<rparr>)
      | Num r # rest \<Rightarrow> (r, s\<lparr>content := rest\<rparr>)
      | Txt t # rest \<Rightarrow>
          ((case std of Cxx03 \<Rightarrow> v | Cxx11 \<Rightarrow> 0), s\<lparr>content := Txt t # rest, failbit := True\<rparr>))"

definition insert_num :: "ostream \<Rightarrow> real \<Rightarrow> ostream" where
  \<comment> \<open>\<^verbatim>\<open>os << v\<close> for a \<^verbatim>\<open>double\<close>\<close>
  "insert_num os v = (if good os then os\<lparr>written := written os @ [Num v]\<rparr> else os)"

definition insert_txt :: "ostream \<Rightarrow> string \<Rightarrow> ostream" where
  \<comment> \<open>\<^verbatim>\<open>os << t\<close> for a string literal\<close>
  "insert_txt os t = (if good os then os\<lparr>written := written os @ [Txt t]\<rparr> else os)"

definition reopen :: "ostream \<Rightarrow> istream" where
  \<comment> \<open>the text that was written, opened for reading\<close>
  "reopen os = \<lparr>content = written os, failbit = False\<rparr>"

text \<open>\<^verbatim>\<open>read\<close> and \<^verbatim>\<open>write\<close> of the two classes; their bodies are the same.\<close>

definition DiffDrive_read :: "cxx \<Rightarrow> istream \<Rightarrow> Edge \<Rightarrow> bool \<times> istream \<times> Edge" where
  "DiffDrive_read std s e =
     (let (m, s1) = extract_double std s (measurement e);
          e1 = e\<lparr>measurement := m\<rparr>;
          (w, s2) = extract_double std s1 (information e1 (0, 0));
          e2 = e1\<lparr>information := (information e1)((0, 0) := w)\<rparr>
      in (True, s2, e2))"

definition DiffDrive_write :: "ostream \<Rightarrow> Edge \<Rightarrow> bool \<times> ostream" where
  "DiffDrive_write os e =
     (let os1 = insert_num os (information e (0, 0));
          os2 = insert_txt os1 '' Error NH-Constraint: '';
          os3 = insert_num os2 (fst (error e));
          os4 = insert_txt os3 '', Error PosDriveDir: '';
          os5 = insert_num os4 (snd (error e))
      in (good os5, os5))"

definition Carlike_read :: "cxx \<Rightarrow> istream \<Rightarrow> Edge \<Rightarrow> bool \<times> istream \<times> Edge" where
  "Carlike_read std s e =
     (let (m, s1) = extract_double std s (measurement e);
          e1 = e\<lparr>measurement := m\<rparr>;
          (w, s2) = extract_double std s1 (information e1 (0, 0));
          e2 = e1\<lparr>information := (information e1)((0, 0) := w)\<rparr>
      in (True, s2, e2))"

definition Carlike_write :: "ostream \<Rightarrow> Edge \<Rightarrow> bool \<times> ostream" where
  "Carlike_write os e =
     (let os1 = insert_num os (information e (0, 0));
          os2 = insert_txt os1 '' Error NH-Constraint: '';
          os3 = insert_num os2 (fst (error e));
          os4 = insert_txt os3 '', Error PosDriveDir: '';
          os5 = insert_num os4 (snd (error e))
      in (good os5, os5))"

section \<open>Objects to evaluate the edges on\<close>

text \<open>
  A differential-drive edge and a car-like edge between two poses, each built by its
  constructor in zeroed storage, bound to the configuration at address 1 and
  attached to its two vertices.
\<close>

definition zeroed :: Edge where
  "zeroed = \<lparr>measurement = 0, information = (\<lambda>_. 0), error = (0, 0), vertices = (\<lambda>_. None),
     jacobianOplusXi = (\<lambda>_. 0), jacobianOplusXj = (\<lambda>_. 0), cfg = 0\<rparr>"

definition diffdrive_between :: "VertexPose \<Rightarrow> VertexPose \<Rightarrow> Edge" where
  "diffdrive_between p q =
     setVertex 1 q (setVertex 0 p (setTebConfig 1 (EdgeKinematicsDiffDrive zeroed)))"

definition carlike_between :: "VertexPose \<Rightarrow> VertexPose \<Rightarrow> Edge" where
  "carlike_between p q =
     setVertex 1 q (setVertex 0 p (setTebConfig 1 (EdgeKinematicsCarlike zeroed)))"

definition pose :: "real \<Rightarrow> real \<Rightarrow> real \<Rightarrow> VertexPose" where
  "pose px py t = \<lparr>position = (px, py), theta = t\<rparr>"

definition config :: "real \<Rightarrow> TebConfig" where
  "config m = \<lparr>robot = \<lparr>min_turning_radius = m\<rparr>\<rparr>"

definition stale :: Edge where
  \<comment> \<open>storage that is not zeroed: what an earlier object left behind\<close>
  "stale = \<lparr>measurement = 7, information = (\<lambda>_. 1), error = (3, 4),
     vertices = (\<lambda>_. Some (pose 9 9 9)),
     jacobianOplusXi = (\<lambda>_. 5), jacobianOplusXj = (\<lambda>_. 6), cfg = 48879\<rparr>"

text \<open>
  The error vector as a function of the six pose coordinates: the edge \<open>e\<close> attached to
  the poses \<open>(x1, y1, t1)\<close> and \<open>(x2, y2, t2)\<close>, and the error that \<^verbatim>\<open>computeError\<close>
  stores on it.
\<close>

definition attach :: "Edge \<Rightarrow> real \<Rightarrow> real \<Rightarrow> real \<Rightarrow> real \<Rightarrow> real \<Rightarrow> real \<Rightarrow> Edge" where
  "attach e x1 y1 t1 x2 y2 t2 = setVertex 1 (pose x2 y2 t2) (setVertex 0 (pose x1 y1 t1) e)"

definition DiffDrive_error_at ::
  "Edge \<Rightarrow> real \<Rightarrow> real \<Rightarrow> real \<Rightarrow> real \<Rightarrow> real \<Rightarrow> real \<Rightarrow> Vector2d" where
  "DiffDrive_error_at e x1 y1 t1 x2 y2 t2 =
     error (projr (DiffDrive_computeError (attach e x1 y1 t1 x2 y2 t2)))"

lemmas sample_defs =
  zeroed_def diffdrive_between_def carlike_between_def pose_def setVertex_def
  setTebConfig_def EdgeKinematicsDiffDrive_def EdgeKinematicsCarlike_def NULL_def config_def

section \<open>The error of the differential-drive edge\<close>

lemma DiffDrive_computeError_bound:
  assumes "cfg e \<noteq> NULL" "vertices e 0 = Some conf1" "vertices e 1 = Some conf2"
  shows "DiffDrive_computeError e =
     Inr (e\<lparr>error :=
       (\<bar>(cos (theta conf1) + cos (theta conf2)) * (snd (position conf2) - snd (position conf1))
         - (sin (theta conf1) + sin (theta conf2)) * (fst (position conf2) - fst (position conf1))\<bar>,
        penaltyBoundFromBelow
          ((fst (position conf2) - fst (position conf1)) * cos (theta conf1)
           + (snd (position conf2) - snd (position conf1)) * sin (theta conf1)) 0 0)\<rparr>)"
  using assms by (simp add: DiffDrive_computeError_def Let_def vminus_def dot_def)

text \<open>
  C1. On an edge with a bound configuration and two poses \<open>conf1\<close>, \<open>conf2\<close>,
  \<^verbatim>\<open>computeError\<close> of the differential-drive edge returns, and the first component of
  the error it stores is
  \<open>|(cos \<theta>1 + cos \<theta>2) \<cdot> \<Delta>y - (sin \<theta>1 + sin \<theta>2) \<cdot> \<Delta>x|\<close> with \<open>\<Delta>\<close> the position of
  \<open>conf2\<close> minus that of \<open>conf1\<close>; it is therefore never negative.
\<close>

theorem diffdrive_nonholonomic_residual:
  assumes "cfg e \<noteq> NULL" "vertices e 0 = Some conf1" "vertices e 1 = Some conf2"
  shows "\<exists>e'. DiffDrive_computeError e = Inr e' \<and>
     fst (error e') =
       \<bar>(cos (theta conf1) + cos (theta conf2)) * (snd (position conf2) - snd (position conf1))
         - (sin (theta conf1) + sin (theta conf2)) * (fst (position conf2) - fst (position conf1))\<bar> \<and>
     0 \<le> fst (error e')"
  by (simp add: DiffDrive_computeError_bound [OF assms])

theorem diffdrive_nonholonomic_residual_witness:
  "cfg (diffdrive_between (pose 0 0 0) (pose 1 2 0)) \<noteq> NULL \<and>
   vertices (diffdrive_between (pose 0 0 0) (pose 1 2 0)) 0 = Some (pose 0 0 0) \<and>
   vertices (diffdrive_between (pose 0 0 0) (pose 1 2 0)) 1 = Some (pose 1 2 0) \<and>
   (\<exists>e'. DiffDrive_computeError (diffdrive_between (pose 0 0 0) (pose 1 2 0)) = Inr e' \<and>
         fst (error e') = 4 \<and> 0 \<le> fst (error e'))"
  using diffdrive_nonholonomic_residual
    [of "diffdrive_between (pose 0 0 0) (pose 1 2 0)" "pose 0 0 0" "pose 1 2 0"]
  by (simp add: sample_defs)

text \<open>
  C4. On differential-drive edges with a bound configuration, the second component of
  the error that \<^verbatim>\<open>computeError\<close> stores is \<open>penaltyBoundFromBelow fwd 0 0\<close> for
  \<open>fwd = (x2 - x1) \<cdot> cos \<theta>1 + (y2 - y1) \<cdot> sin \<theta>1\<close>, the displacement along the heading of
  the first pose. It is 0 when \<open>fwd \<ge> 0\<close>; it is positive, and equal to \<open>|fwd|\<close>, when
  \<open>fwd < 0\<close>; and of two backward displacements the one that points further backward
  (\<open>bwd < fwd < 0\<close>, on a second edge \<open>d\<close>) has the larger component.
\<close>

theorem diffdrive_drive_direction:
  assumes "cfg e \<noteq> NULL" "vertices e 0 = Some conf1" "vertices e 1 = Some conf2"
    and "cfg d \<noteq> NULL" "vertices d 0 = Some c1" "vertices d 1 = Some c2"
    and "fwd = (fst (position conf2) - fst (position conf1)) * cos (theta conf1)
               + (snd (position conf2) - snd (position conf1)) * sin (theta conf1)"
    and "bwd = (fst (position c2) - fst (position c1)) * cos (theta c1)
               + (snd (position c2) - snd (position c1)) * sin (theta c1)"
  shows "\<exists>e' d'. DiffDrive_computeError e = Inr e' \<and> DiffDrive_computeError d = Inr d' \<and>
     snd (error e') = penaltyBoundFromBelow fwd 0 0 \<and>
     (0 \<le> fwd \<longrightarrow> snd (error e') = 0) \<and>
     (fwd < 0 \<longrightarrow> 0 < snd (error e') \<and> snd (error e') = \<bar>fwd\<bar>) \<and>
     (bwd < fwd \<and> fwd < 0 \<longrightarrow> snd (error e') < snd (error d'))"
  using assms(7,8)
  by (simp add: DiffDrive_computeError_bound [OF assms(1-3)]
      DiffDrive_computeError_bound [OF assms(4-6)] penaltyBoundFromBelow_def)

text \<open>
  Three steps from the pose \<open>(1, 2, \<pi>/2)\<close>, which heads along the y axis: to \<open>(-2, 4)\<close>,
  forward by 2; to \<open>(4, -1)\<close>, backward by 3; to \<open>(6, -3)\<close>, backward by 5.
\<close>

theorem diffdrive_drive_direction_witness:
  "cfg (diffdrive_between (pose 1 2 (pi / 2)) (pose (- 2) 4 0)) \<noteq> NULL \<and>
   cfg (diffdrive_between (pose 1 2 (pi / 2)) (pose 4 (- 1) 0)) \<noteq> NULL \<and>
   cfg (diffdrive_between (pose 1 2 (pi / 2)) (pose 6 (- 3) 0)) \<noteq> NULL \<and>
   (- 2 - 1) * cos (pi / 2) + (4 - 2) * sin (pi / 2) = (2::real) \<and>
   (4 - 1) * cos (pi / 2) + (- 1 - 2) * sin (pi / 2) = (- 3::real) \<and>
   (6 - 1) * cos (pi / 2) + (- 3 - 2) * sin (pi / 2) = (- 5::real) \<and>
   (\<exists>e'. DiffDrive_computeError (diffdrive_between (pose 1 2 (pi / 2)) (pose (- 2) 4 0)) = Inr e' \<and>
      snd (error e') = 0) \<and>
   (\<exists>e' d'. DiffDrive_computeError (diffdrive_between (pose 1 2 (pi / 2)) (pose 4 (- 1) 0)) = Inr e' \<and>
      DiffDrive_computeError (diffdrive_between (pose 1 2 (pi / 2)) (pose 6 (- 3) 0)) = Inr d' \<and>
      snd (error e') = 3 \<and> snd (error d') = 5 \<and> snd (error e') < snd (error d'))"
proof -
  have bound:
    "cfg (diffdrive_between (pose 1 2 (pi / 2)) (pose (- 2) 4 0)) \<noteq> NULL"
    "cfg (diffdrive_between (pose 1 2 (pi / 2)) (pose 4 (- 1) 0)) \<noteq> NULL"
    "cfg (diffdrive_between (pose 1 2 (pi / 2)) (pose 6 (- 3) 0)) \<noteq> NULL"
    by (simp_all add: sample_defs)
  have ends:
    "vertices (diffdrive_between (pose 1 2 (pi / 2)) (pose (- 2) 4 0)) 0 = Some (pose 1 2 (pi / 2))"
    "vertices (diffdrive_between (pose 1 2 (pi / 2)) (pose (- 2) 4 0)) 1 = Some (pose (- 2) 4 0)"
    "vertices (diffdrive_between (pose 1 2 (pi / 2)) (pose 4 (- 1) 0)) 0 = Some (pose 1 2 (pi / 2))"
    "vertices (diffdrive_between (pose 1 2 (pi / 2)) (pose 4 (- 1) 0)) 1 = Some (pose 4 (- 1) 0)"
    "vertices (diffdrive_between (pose 1 2 (pi / 2)) (pose 6 (- 3) 0)) 0 = Some (pose 1 2 (pi / 2))"
    "vertices (diffdrive_between (pose 1 2 (pi / 2)) (pose 6 (- 3) 0)) 1 = Some (pose 6 (- 3) 0)"
    by (simp_all add: sample_defs)
  have along:
    "(2::real) = (fst (position (pose (- 2) 4 0)) - fst (position (pose 1 2 (pi / 2))))
                   * cos (theta (pose 1 2 (pi / 2)))
                 + (snd (position (pose (- 2) 4 0)) - snd (position (pose 1 2 (pi / 2))))
                   * sin (theta (pose 1 2 (pi / 2)))"
    "(- 3::real) = (fst (position (pose 4 (- 1) 0)) - fst (position (pose 1 2 (pi / 2))))
                   * cos (theta (pose 1 2 (pi / 2)))
                 + (snd (position (pose 4 (- 1) 0)) - snd (position (pose 1 2 (pi / 2))))
                   * sin (theta (pose 1 2 (pi / 2)))"
    "(- 5::real) = (fst (position (pose 6 (- 3) 0)) - fst (position (pose 1 2 (pi / 2))))
                   * cos (theta (pose 1 2 (pi / 2)))
                 + (snd (position (pose 6 (- 3) 0)) - snd (position (pose 1 2 (pi / 2))))
                   * sin (theta (pose 1 2 (pi / 2)))"
    by (simp_all add: pose_def)
  have along':
    "(- 2 - 1) * cos (pi / 2) + (4 - 2) * sin (pi / 2) = (2::real)"
    "(4 - 1) * cos (pi / 2) + (- 1 - 2) * sin (pi / 2) = (- 3::real)"
    "(6 - 1) * cos (pi / 2) + (- 3 - 2) * sin (pi / 2) = (- 5::real)"
    by simp_all
  from diffdrive_drive_direction [OF bound(1) ends(1,2) bound(1) ends(1,2) along(1) along(1)]
  obtain a where a: "DiffDrive_computeError
        (diffdrive_between (pose 1 2 (pi / 2)) (pose (- 2) 4 0)) = Inr a"
    and "0 \<le> (2::real) \<longrightarrow> snd (error a) = 0"
    by blast
  then have forward: "snd (error a) = 0" by simp
  from diffdrive_drive_direction [OF bound(2) ends(3,4) bound(3) ends(5,6) along(2) along(3)]
  obtain b c where b: "DiffDrive_computeError
        (diffdrive_between (pose 1 2 (pi / 2)) (pose 4 (- 1) 0)) = Inr b"
    and c: "DiffDrive_computeError
        (diffdrive_between (pose 1 2 (pi / 2)) (pose 6 (- 3) 0)) = Inr c"
    and "(- 3::real) < 0 \<longrightarrow> 0 < snd (error b) \<and> snd (error b) = \<bar>- 3\<bar>"
    and "(- 5::real) < - 3 \<and> (- 3::real) < 0 \<longrightarrow> snd (error b) < snd (error c)"
    by blast
  then have backward: "snd (error b) = 3" "snd (error b) < snd (error c)" by simp_all
  from diffdrive_drive_direction [OF bound(3) ends(5,6) bound(3) ends(5,6) along(3) along(3)]
  obtain c' where "DiffDrive_computeError
        (diffdrive_between (pose 1 2 (pi / 2)) (pose 6 (- 3) 0)) = Inr c'"
    and "(- 5::real) < 0 \<longrightarrow> 0 < snd (error c') \<and> snd (error c') = \<bar>- 5\<bar>"
    by blast
  with c have further: "snd (error c) = 5" by simp
  from a forward have one: "\<exists>e'. DiffDrive_computeError
      (diffdrive_between (pose 1 2 (pi / 2)) (pose (- 2) 4 0)) = Inr e' \<and> snd (error e') = 0"
    by (intro exI [of _ a] conjI)
  from b c backward further have two: "\<exists>e' d'. DiffDrive_computeError
        (diffdrive_between (pose 1 2 (pi / 2)) (pose 4 (- 1) 0)) = Inr e' \<and>
      DiffDrive_computeError (diffdrive_between (pose 1 2 (pi / 2)) (pose 6 (- 3) 0)) = Inr d' \<and>
      snd (error e') = 3 \<and> snd (error d') = 5 \<and> snd (error e') < snd (error d')"
    by (intro exI [of _ b] exI [of _ c] conjI)
  from bound along' one two show ?thesis
    by (intro conjI)
qed

section \<open>The error of the car-like edge\<close>

text \<open>An angle that is already in \<open>(-\<pi>, \<pi>]\<close> is left as it is.\<close>

lemma normalize_theta_id:
  assumes "- pi < t" "t \<le> pi"
  shows "normalize_theta t = t"
proof -
  have "\<lceil>(t - pi) / (2 * pi)\<rceil> = 0"
  proof (rule ceiling_unique)
    show "of_int 0 - 1 < (t - pi) / (2 * pi)"
      using assms pi_gt_zero by (simp add: field_simps)
    show "(t - pi) / (2 * pi) \<le> of_int 0"
      using assms pi_gt_zero by (simp add: field_simps)
  qed
  then show ?thesis by (simp add: normalize_theta_def)
qed

lemma normalize_theta_0: "normalize_theta 0 = 0"
  by (rule normalize_theta_id) simp_all

lemma normalize_theta_1: "normalize_theta 1 = 1"
  using pi_ge_two by (intro normalize_theta_id) simp_all

lemma Carlike_computeError_straight:
  assumes "cfg e \<noteq> NULL" "vertices e 0 = Some conf1" "vertices e 1 = Some conf2"
    and "normalize_theta (theta conf2 - theta conf1) = 0"
  shows "Carlike_computeError mem e =
     Inr (e\<lparr>error :=
       (\<bar>(cos (theta conf1) + cos (theta conf2)) * (snd (position conf2) - snd (position conf1))
         - (sin (theta conf1) + sin (theta conf2)) * (fst (position conf2) - fst (position conf1))\<bar>,
        0)\<rparr>)"
  using assms by (simp add: Carlike_computeError_def Let_def vminus_def)

lemma Carlike_computeError_turn:
  assumes "cfg e \<noteq> NULL" "mem (cfg e) = Some c"
    and "vertices e 0 = Some conf1" "vertices e 1 = Some conf2"
    and "normalize_theta (theta conf2 - theta conf1) \<noteq> 0"
  shows "Carlike_computeError mem e =
     Inr (e\<lparr>error :=
       (\<bar>(cos (theta conf1) + cos (theta conf2)) * (snd (position conf2) - snd (position conf1))
         - (sin (theta conf1) + sin (theta conf2)) * (fst (position conf2) - fst (position conf1))\<bar>,
        penaltyBoundFromBelow
          (sqrt ((fst (position conf2) - fst (position conf1))\<^sup>2
                 + (snd (position conf2) - snd (position conf1))\<^sup>2)
             / \<bar>normalize_theta (theta conf2 - theta conf1)\<bar>)
          (min_turning_radius (robot c)) 0)\<rparr>)"
  using assms
  by (simp add: Carlike_computeError_def Let_def vminus_def norm_vec_def divide_checked_def
      power2_eq_square)

lemma sqrt_25: "sqrt 25 = 5"
  by (rule real_sqrt_unique) simp_all

lemma Carlike_no_zero_divisor: "Carlike_computeError mem e \<noteq> Inl Zero_divisor"
  by (simp add: Carlike_computeError_def Let_def divide_checked_def
      split: option.splits sum.splits)

text \<open>
  C2. On a car-like edge with a bound configuration and two poses whose normalized
  heading difference is exactly 0, \<^verbatim>\<open>computeError\<close> returns and the second component of
  the error it stores is exactly 0, whatever the two positions are. And on no edge and
  no store does \<^verbatim>\<open>computeError\<close> divide by zero.
\<close>

theorem carlike_straight_line:
  assumes "cfg e \<noteq> NULL" "vertices e 0 = Some conf1" "vertices e 1 = Some conf2"
    and "normalize_theta (theta conf2 - theta conf1) = 0"
  shows "(\<exists>e'. Carlike_computeError mem e = Inr e' \<and> snd (error e') = 0) \<and>
     (\<forall>m d. Carlike_computeError m d \<noteq> Inl Zero_divisor)"
  by (simp add: Carlike_computeError_straight [OF assms] Carlike_no_zero_divisor)

theorem carlike_straight_line_witness:
  "cfg (carlike_between (pose 0 0 0) (pose 5 7 0)) \<noteq> NULL \<and>
   vertices (carlike_between (pose 0 0 0) (pose 5 7 0)) 0 = Some (pose 0 0 0) \<and>
   vertices (carlike_between (pose 0 0 0) (pose 5 7 0)) 1 = Some (pose 5 7 0) \<and>
   normalize_theta (theta (pose 5 7 0) - theta (pose 0 0 0)) = 0 \<and>
   (\<exists>e'. Carlike_computeError Map.empty (carlike_between (pose 0 0 0) (pose 5 7 0)) = Inr e' \<and>
         snd (error e') = 0)"
  using carlike_straight_line
    [of "carlike_between (pose 0 0 0) (pose 5 7 0)" "pose 0 0 0" "pose 5 7 0" Map.empty]
  by (simp add: sample_defs normalize_theta_0)

text \<open>
  C3. On a car-like edge with a bound configuration and two poses whose normalized
  heading difference \<open>\<Delta>\<theta>\<close> is not 0, \<^verbatim>\<open>computeError\<close> returns and the second component of
  the error it stores is \<open>penaltyBoundFromBelow r min_turning_radius 0\<close> for the implied
  radius \<open>r = sqrt ((x2 - x1)\<^sup>2 + (y2 - y1)\<^sup>2) / |\<Delta>\<theta>|\<close>: it is \<open>min_turning_radius - r\<close>, which
  is positive, when \<open>r < min_turning_radius\<close>, and 0 when \<open>r \<ge> min_turning_radius\<close>.
\<close>

theorem carlike_turning_radius:
  assumes "cfg e \<noteq> NULL" "mem (cfg e) = Some c"
    and "vertices e 0 = Some conf1" "vertices e 1 = Some conf2"
    and "normalize_theta (theta conf2 - theta conf1) \<noteq> 0"
    and "r = sqrt ((fst (position conf2) - fst (position conf1))\<^sup>2
                   + (snd (position conf2) - snd (position conf1))\<^sup>2)
               / \<bar>normalize_theta (theta conf2 - theta conf1)\<bar>"
  shows "\<exists>e'. Carlike_computeError mem e = Inr e' \<and>
     snd (error e') = penaltyBoundFromBelow r (min_turning_radius (robot c)) 0 \<and>
     (r < min_turning_radius (robot c) \<longrightarrow>
        snd (error e') = min_turning_radius (robot c) - r \<and> 0 < snd (error e')) \<and>
     (min_turning_radius (robot c) \<le> r \<longrightarrow> snd (error e') = 0)"
  using assms(6)
  by (simp add: Carlike_computeError_turn [where mem = mem and e = e, OF assms(1-5)]
      penaltyBoundFromBelow_def)

text \<open>
  The step from \<open>(1, 2, 0)\<close> to \<open>(4, 6, 1)\<close>: the displacement \<open>(3, 4)\<close> has length 5 and
  the heading turns by 1, so the implied radius is 5. A minimum turning radius of 7 gives
  the component 2, one of 3 gives 0.
\<close>

theorem carlike_turning_radius_witness:
  "cfg (carlike_between (pose 1 2 0) (pose 4 6 1)) \<noteq> NULL \<and>
   vertices (carlike_between (pose 1 2 0) (pose 4 6 1)) 0 = Some (pose 1 2 0) \<and>
   vertices (carlike_between (pose 1 2 0) (pose 4 6 1)) 1 = Some (pose 4 6 1) \<and>
   normalize_theta (theta (pose 4 6 1) - theta (pose 1 2 0)) \<noteq> 0 \<and>
   sqrt ((4 - 1)\<^sup>2 + (6 - 2)\<^sup>2) / \<bar>normalize_theta (1 - 0)\<bar> = 5 \<and>
   (\<exists>e'. Carlike_computeError [1 \<mapsto> config 7] (carlike_between (pose 1 2 0) (pose 4 6 1)) = Inr e' \<and>
         snd (error e') = 2) \<and>
   (\<exists>e'. Carlike_computeError [1 \<mapsto> config 3] (carlike_between (pose 1 2 0) (pose 4 6 1)) = Inr e' \<and>
         snd (error e') = 0)"
proof -
  have bound: "cfg (carlike_between (pose 1 2 0) (pose 4 6 1)) \<noteq> NULL"
    by (simp add: sample_defs)
  have held: "[1 \<mapsto> config 7] (cfg (carlike_between (pose 1 2 0) (pose 4 6 1))) = Some (config 7)"
    "[1 \<mapsto> config 3] (cfg (carlike_between (pose 1 2 0) (pose 4 6 1))) = Some (config 3)"
    by (simp_all add: sample_defs)
  have ends: "vertices (carlike_between (pose 1 2 0) (pose 4 6 1)) 0 = Some (pose 1 2 0)"
    "vertices (carlike_between (pose 1 2 0) (pose 4 6 1)) 1 = Some (pose 4 6 1)"
    by (simp_all add: sample_defs)
  have turn: "normalize_theta (theta (pose 4 6 1) - theta (pose 1 2 0)) \<noteq> 0"
    by (simp add: pose_def normalize_theta_1)
  have radius: "(5::real) =
      sqrt ((fst (position (pose 4 6 1)) - fst (position (pose 1 2 0)))\<^sup>2
            + (snd (position (pose 4 6 1)) - snd (position (pose 1 2 0)))\<^sup>2)
        / \<bar>normalize_theta (theta (pose 4 6 1) - theta (pose 1 2 0))\<bar>"
    by (simp add: pose_def normalize_theta_1 sqrt_25)
  have radius': "sqrt ((4 - 1)\<^sup>2 + (6 - 2)\<^sup>2) / \<bar>normalize_theta (1 - 0)\<bar> = 5"
    by (simp add: normalize_theta_1 sqrt_25)
  from carlike_turning_radius
    [of "carlike_between (pose 1 2 0) (pose 4 6 1)" "[1 \<mapsto> config 7]" "config 7"
        "pose 1 2 0" "pose 4 6 1" 5, OF bound held(1) ends turn radius]
  obtain e' where
    "Carlike_computeError [1 \<mapsto> config 7] (carlike_between (pose 1 2 0) (pose 4 6 1)) = Inr e'"
    and "5 < min_turning_radius (robot (config 7)) \<longrightarrow>
      snd (error e') = min_turning_radius (robot (config 7)) - 5 \<and> 0 < snd (error e')"
    by blast
  then have tight: "\<exists>e'. Carlike_computeError [1 \<mapsto> config 7]
      (carlike_between (pose 1 2 0) (pose 4 6 1)) = Inr e' \<and> snd (error e') = 2"
    by (simp add: config_def)
  from carlike_turning_radius
    [of "carlike_between (pose 1 2 0) (pose 4 6 1)" "[1 \<mapsto> config 3]" "config 3"
        "pose 1 2 0" "pose 4 6 1" 5, OF bound held(2) ends turn radius]
  obtain d' where
    "Carlike_computeError [1 \<mapsto> config 3] (carlike_between (pose 1 2 0) (pose 4 6 1)) = Inr d'"
    and "min_turning_radius (robot (config 3)) \<le> 5 \<longrightarrow> snd (error d') = 0"
    by blast
  then have wide: "\<exists>e'. Carlike_computeError [1 \<mapsto> config 3]
      (carlike_between (pose 1 2 0) (pose 4 6 1)) = Inr e' \<and> snd (error e') = 0"
    by (simp add: config_def)
  from bound ends turn radius' tight wide show ?thesis by blast
qed

text \<open>
  C9. On a car-like edge whose two poses have the same position and a normalized heading
  difference that is not 0, with a configuration of the data model
  (\<open>min_turning_radius \<ge> 0\<close>), the second component of the error that \<^verbatim>\<open>computeError\<close>
  stores is exactly \<open>min_turning_radius\<close>, which is positive when \<open>min_turning_radius\<close> is.
\<close>

theorem carlike_rotation_in_place:
  assumes "cfg e \<noteq> NULL" "mem (cfg e) = Some c"
    and "vertices e 0 = Some conf1" "vertices e 1 = Some conf2"
    and "position conf1 = position conf2"
    and "normalize_theta (theta conf2 - theta conf1) \<noteq> 0"
    and "0 \<le> min_turning_radius (robot c)"
  shows "\<exists>e'. Carlike_computeError mem e = Inr e' \<and>
     snd (error e') = min_turning_radius (robot c) \<and>
     (0 < min_turning_radius (robot c) \<longrightarrow> 0 < snd (error e'))"
  using assms(5,7)
  by (simp add: Carlike_computeError_turn [where mem = mem and e = e, OF assms(1-4,6)] penaltyBoundFromBelow_def
      norm_vec_def vminus_def)

theorem carlike_rotation_in_place_witness:
  "cfg (carlike_between (pose 4 5 0) (pose 4 5 1)) \<noteq> NULL \<and>
   vertices (carlike_between (pose 4 5 0) (pose 4 5 1)) 0 = Some (pose 4 5 0) \<and>
   vertices (carlike_between (pose 4 5 0) (pose 4 5 1)) 1 = Some (pose 4 5 1) \<and>
   position (pose 4 5 0) = position (pose 4 5 1) \<and>
   normalize_theta (theta (pose 4 5 1) - theta (pose 4 5 0)) \<noteq> 0 \<and>
   0 \<le> min_turning_radius (robot (config 3)) \<and>
   0 < min_turning_radius (robot (config 3)) \<and>
   (\<exists>e'. Carlike_computeError [1 \<mapsto> config 3] (carlike_between (pose 4 5 0) (pose 4 5 1)) = Inr e' \<and>
         snd (error e') = 3 \<and> 0 < snd (error e'))"
  using carlike_rotation_in_place
    [of "carlike_between (pose 4 5 0) (pose 4 5 1)" "[1 \<mapsto> config 3]" "config 3"
        "pose 4 5 0" "pose 4 5 1"]
  by (simp add: sample_defs normalize_theta_1)

section \<open>Evaluating an edge that was never bound\<close>

text \<open>
  C6. \<^verbatim>\<open>setTebConfig\<close> is the only assignment to \<^verbatim>\<open>cfg_\<close>: the constructor leaves the
  member as the storage held it. So what \<^verbatim>\<open>computeError\<close> does on an edge that was
  attached to its poses and never bound depends on the storage. In zeroed storage the
  assertion fails. In storage that holds a nonzero word where \<^verbatim>\<open>cfg_\<close> lies, the assertion
  passes and the error vector \<open>(0, 0)\<close> of a straight forward step is stored, with no fault.
\<close>

theorem diffdrive_unbound_evaluates:
  "cfg (EdgeKinematicsDiffDrive storage) = cfg storage \<and>
   cfg (EdgeKinematicsCarlike storage) = cfg storage \<and>
   DiffDrive_computeError (attach (EdgeKinematicsDiffDrive zeroed) 0 0 0 1 0 0)
     = Inl Assertion_failed \<and>
   DiffDrive_computeError (attach (EdgeKinematicsDiffDrive stale) 0 0 0 1 0 0)
     = Inr ((attach (EdgeKinematicsDiffDrive stale) 0 0 0 1 0 0)\<lparr>error := (0, 0)\<rparr>) \<and>
   Carlike_computeError mem (attach (EdgeKinematicsCarlike stale) 0 0 0 1 0 0)
     = Inr ((attach (EdgeKinematicsCarlike stale) 0 0 0 1 0 0)\<lparr>error := (0, 0)\<rparr>)"
  by (simp add: DiffDrive_computeError_def Carlike_computeError_def stale_def attach_def
      sample_defs Let_def vminus_def dot_def penaltyBoundFromBelow_def normalize_theta_0)

section \<open>The Jacobian of the differential-drive edge\<close>

lemma attach_simps:
  "cfg (attach e x1 y1 t1 x2 y2 t2) = cfg e"
  "vertices (attach e x1 y1 t1 x2 y2 t2) 0 = Some (pose x1 y1 t1)"
  "vertices (attach e x1 y1 t1 x2 y2 t2) 1 = Some (pose x2 y2 t2)"
  by (simp_all add: attach_def setVertex_def)

lemma DiffDrive_error_at_eq:
  assumes "cfg e \<noteq> NULL"
  shows "DiffDrive_error_at e x1 y1 t1 x2 y2 t2 =
     (\<bar>(cos t1 + cos t2) * (y2 - y1) - (sin t1 + sin t2) * (x2 - x1)\<bar>,
      penaltyBoundFromBelow ((x2 - x1) * cos t1 + (y2 - y1) * sin t1) 0 0)"
proof -
  have "cfg (attach e x1 y1 t1 x2 y2 t2) \<noteq> NULL"
    using assms by (simp add: attach_simps)
  from DiffDrive_computeError_bound [OF this attach_simps(2) attach_simps(3)]
  show ?thesis
    by (simp add: DiffDrive_error_at_def pose_def)
qed

lemma DiffDrive_linearizeOplus_at:
  assumes "cfg e \<noteq> NULL"
  shows "\<exists>e'. DiffDrive_linearizeOplus (attach e x1 y1 t1 x2 y2 t2) = Inr e' \<and>
    jacobianOplusXi e' (0, 0) = (sin t1 + sin t2) * sign ((cos t1 + cos t2) * (y2 - y1) - (sin t1 + sin t2) * (x2 - x1)) \<and>
    jacobianOplusXi e' (0, 1) = - (cos t1 + cos t2) * sign ((cos t1 + cos t2) * (y2 - y1) - (sin t1 + sin t2) * (x2 - x1)) \<and>
    jacobianOplusXi e' (0, 2) = (- (y2 - y1) * sin t1 - (x2 - x1) * cos t1) * sign ((cos t1 + cos t2) * (y2 - y1) - (sin t1 + sin t2) * (x2 - x1)) \<and>
    jacobianOplusXi e' (1, 0) = - cos t1 * penaltyBoundFromBelowDerivative ((x2 - x1) * cos t1 + (y2 - y1) * sin t1) 0 0 \<and>
    jacobianOplusXi e' (1, 1) = - sin t1 * penaltyBoundFromBelowDerivative ((x2 - x1) * cos t1 + (y2 - y1) * sin t1) 0 0 \<and>
    jacobianOplusXi e' (1, 2) = (- sin t1 * (x2 - x1) + cos t1 * (y2 - y1)) * penaltyBoundFromBelowDerivative ((x2 - x1) * cos t1 + (y2 - y1) * sin t1) 0 0 \<and>
    jacobianOplusXj e' (0, 0) = - (sin t1 + sin t2) * sign ((cos t1 + cos t2) * (y2 - y1) - (sin t1 + sin t2) * (x2 - x1)) \<and>
    jacobianOplusXj e' (0, 1) = (cos t1 + cos t2) * sign ((cos t1 + cos t2) * (y2 - y1) - (sin t1 + sin t2) * (x2 - x1)) \<and>
    jacobianOplusXj e' (0, 2) = (- sin t2 * (y2 - y1) - cos t2 * (x2 - x1)) * sign ((cos t1 + cos t2) * (y2 - y1) - (sin t1 + sin t2) * (x2 - x1)) \<and>
    jacobianOplusXj e' (1, 0) = cos t1 * penaltyBoundFromBelowDerivative ((x2 - x1) * cos t1 + (y2 - y1) * sin t1) 0 0 \<and>
    jacobianOplusXj e' (1, 1) = sin t1 * penaltyBoundFromBelowDerivative ((x2 - x1) * cos t1 + (y2 - y1) * sin t1) 0 0 \<and>
    jacobianOplusXj e' (1, 2) = 0"
  using assms attach_simps [of e x1 y1 t1 x2 y2 t2]
  by (simp add: DiffDrive_linearizeOplus_def Let_def pose_def vminus_def) (simp add: algebra_simps)

lemma DERIV_abs_sign:
  fixes x :: real
  assumes "x \<noteq> 0"
  shows "(abs has_real_derivative sign x) (at x)"
proof (cases "0 < x")
  case True
  have "((\<lambda>v. v) has_real_derivative 1) (at x)" by simp
  then have "(abs has_real_derivative 1) (at x)"
    by (rule has_field_derivative_transform_within_open [where S = "{0<..}"])
       (use True in auto)
  with True show ?thesis by (simp add: sign_def)
next
  case False
  with assms have neg: "x < 0" by simp
  have "((\<lambda>v. - v) has_real_derivative - 1) (at x)"
    by (auto intro!: derivative_eq_intros)
  then have "(abs has_real_derivative - 1) (at x)"
    by (rule has_field_derivative_transform_within_open [where S = "{..<0}"])
       (use neg in auto)
  with neg show ?thesis by (simp add: sign_def)
qed

lemma DERIV_penalty:
  fixes x :: real
  assumes "x \<noteq> 0"
  shows "((\<lambda>v. penaltyBoundFromBelow v 0 0) has_real_derivative
            penaltyBoundFromBelowDerivative x 0 0) (at x)"
proof (cases "0 < x")
  case True
  have "((\<lambda>v. 0) has_real_derivative 0) (at x)" by simp
  then have "((\<lambda>v. penaltyBoundFromBelow v 0 0) has_real_derivative 0) (at x)"
    by (rule has_field_derivative_transform_within_open [where S = "{0<..}"])
       (use True in \<open>auto simp: penaltyBoundFromBelow_def\<close>)
  with True show ?thesis by (simp add: penaltyBoundFromBelowDerivative_def)
next
  case False
  with assms have neg: "x < 0" by simp
  have "((\<lambda>v. - v) has_real_derivative - 1) (at x)"
    by (auto intro!: derivative_eq_intros)
  then have "((\<lambda>v. penaltyBoundFromBelow v 0 0) has_real_derivative - 1) (at x)"
    by (rule has_field_derivative_transform_within_open [where S = "{..<0}"])
       (use neg in \<open>auto simp: penaltyBoundFromBelow_def\<close>)
  with neg show ?thesis by (simp add: penaltyBoundFromBelowDerivative_def)
qed

lemma DERIV_abs_of:
  fixes f :: "real \<Rightarrow> real"
  assumes "(f has_real_derivative D) (at x)" "f x \<noteq> 0" "J = D * sign (f x)"
  shows "((\<lambda>v. \<bar>f v\<bar>) has_real_derivative J) (at x)"
  using DERIV_chain2 [OF DERIV_abs_sign [OF assms(2)] assms(1)] assms(3)
  by (simp add: mult.commute)

lemma DERIV_penalty_of:
  fixes f :: "real \<Rightarrow> real"
  assumes "(f has_real_derivative D) (at x)" "f x \<noteq> 0"
    "J = D * penaltyBoundFromBelowDerivative (f x) 0 0"
  shows "((\<lambda>v. penaltyBoundFromBelow (f v) 0 0) has_real_derivative J) (at x)"
  using DERIV_chain2 [OF DERIV_penalty [OF assms(2)] assms(1)] assms(3)
  by (simp add: mult.commute)

text \<open>
  C5. Take a differential-drive edge with a bound configuration and a pose pair at which
  the expression under the absolute value is not 0 and the drive-direction argument is
  not 0 (the kink of the penalty). \<^verbatim>\<open>computeError\<close> returns on every pose pair,
  \<^verbatim>\<open>linearizeOplus\<close> returns at the pair, and each entry \<open>(i, j)\<close> of the two matrices it
  stores is the derivative of component \<open>i\<close> of the error vector in coordinate \<open>j\<close> of
  the first pose (for \<^verbatim>\<open>_jacobianOplusXi\<close>) and of the second pose (for
  \<^verbatim>\<open>_jacobianOplusXj\<close>), the other five coordinates held fixed.
\<close>

theorem diffdrive_jacobian:
  assumes "cfg e \<noteq> NULL"
    and "(cos t1 + cos t2) * (y2 - y1) - (sin t1 + sin t2) * (x2 - x1) \<noteq> 0"
    and "(x2 - x1) * cos t1 + (y2 - y1) * sin t1 \<noteq> 0"
  shows "(\<forall>a1 b1 c1 a2 b2 c2. \<exists>d. DiffDrive_computeError (attach e a1 b1 c1 a2 b2 c2) = Inr d) \<and>
    (\<exists>e'. DiffDrive_linearizeOplus (attach e x1 y1 t1 x2 y2 t2) = Inr e' \<and>
    ((\<lambda>v. fst (DiffDrive_error_at e v y1 t1 x2 y2 t2)) has_real_derivative
        jacobianOplusXi e' (0, 0)) (at x1) \<and>
    ((\<lambda>v. fst (DiffDrive_error_at e x1 v t1 x2 y2 t2)) has_real_derivative
        jacobianOplusXi e' (0, 1)) (at y1) \<and>
    ((\<lambda>v. fst (DiffDrive_error_at e x1 y1 v x2 y2 t2)) has_real_derivative
        jacobianOplusXi e' (0, 2)) (at t1) \<and>
    ((\<lambda>v. snd (DiffDrive_error_at e v y1 t1 x2 y2 t2)) has_real_derivative
        jacobianOplusXi e' (1, 0)) (at x1) \<and>
    ((\<lambda>v. snd (DiffDrive_error_at e x1 v t1 x2 y2 t2)) has_real_derivative
        jacobianOplusXi e' (1, 1)) (at y1) \<and>
    ((\<lambda>v. snd (DiffDrive_error_at e x1 y1 v x2 y2 t2)) has_real_derivative
        jacobianOplusXi e' (1, 2)) (at t1) \<and>
    ((\<lambda>v. fst (DiffDrive_error_at e x1 y1 t1 v y2 t2)) has_real_derivative
        jacobianOplusXj e' (0, 0)) (at x2) \<and>
    ((\<lambda>v. fst (DiffDrive_error_at e x1 y1 t1 x2 v t2)) has_real_derivative
        jacobianOplusXj e' (0, 1)) (at y2) \<and>
    ((\<lambda>v. fst (DiffDrive_error_at e x1 y1 t1 x2 y2 v)) has_real_derivative
        jacobianOplusXj e' (0, 2)) (at t2) \<and>
    ((\<lambda>v. snd (DiffDrive_error_at e x1 y1 t1 v y2 t2)) has_real_derivative
        jacobianOplusXj e' (1, 0)) (at x2) \<and>
    ((\<lambda>v. snd (DiffDrive_error_at e x1 y1 t1 x2 v t2)) has_real_derivative
        jacobianOplusXj e' (1, 1)) (at y2) \<and>
    ((\<lambda>v. snd (DiffDrive_error_at e x1 y1 t1 x2 y2 v)) has_real_derivative
        jacobianOplusXj e' (1, 2)) (at t2))"
proof -
  have returns: "\<forall>a1 b1 c1 a2 b2 c2. \<exists>d. DiffDrive_computeError (attach e a1 b1 c1 a2 b2 c2) = Inr d"
    using assms(1) by (simp add: DiffDrive_computeError_def attach_def setVertex_def Let_def)
  from DiffDrive_linearizeOplus_at [OF assms(1), of x1 y1 t1 x2 y2 t2]
  obtain e' where lin: "DiffDrive_linearizeOplus (attach e x1 y1 t1 x2 y2 t2) = Inr e'"
    and J: 
      "jacobianOplusXi e' (0, 0) = (sin t1 + sin t2) * sign ((cos t1 + cos t2) * (y2 - y1) - (sin t1 + sin t2) * (x2 - x1))"
      "jacobianOplusXi e' (0, 1) = - (cos t1 + cos t2) * sign ((cos t1 + cos t2) * (y2 - y1) - (sin t1 + sin t2) * (x2 - x1))"
      "jacobianOplusXi e' (0, 2) = (- (y2 - y1) * sin t1 - (x2 - x1) * cos t1) * sign ((cos t1 + cos t2) * (y2 - y1) - (sin t1 + sin t2) * (x2 - x1))"
      "jacobianOplusXi e' (1, 0) = - cos t1 * penaltyBoundFromBelowDerivative ((x2 - x1) * cos t1 + (y2 - y1) * sin t1) 0 0"
      "jacobianOplusXi e' (1, 1) = - sin t1 * penaltyBoundFromBelowDerivative ((x2 - x1) * cos t1 + (y2 - y1) * sin t1) 0 0"
      "jacobianOplusXi e' (1, 2) = (- sin t1 * (x2 - x1) + cos t1 * (y2 - y1)) * penaltyBoundFromBelowDerivative ((x2 - x1) * cos t1 + (y2 - y1) * sin t1) 0 0"
      "jacobianOplusXj e' (0, 0) = - (sin t1 + sin t2) * sign ((cos t1 + cos t2) * (y2 - y1) - (sin t1 + sin t2) * (x2 - x1))"
      "jacobianOplusXj e' (0, 1) = (cos t1 + cos t2) * sign ((cos t1 + cos t2) * (y2 - y1) - (sin t1 + sin t2) * (x2 - x1))"
      "jacobianOplusXj e' (0, 2) = (- sin t2 * (y2 - y1) - cos t2 * (x2 - x1)) * sign ((cos t1 + cos t2) * (y2 - y1) - (sin t1 + sin t2) * (x2 - x1))"
      "jacobianOplusXj e' (1, 0) = cos t1 * penaltyBoundFromBelowDerivative ((x2 - x1) * cos t1 + (y2 - y1) * sin t1) 0 0"
      "jacobianOplusXj e' (1, 1) = sin t1 * penaltyBoundFromBelowDerivative ((x2 - x1) * cos t1 + (y2 - y1) * sin t1) 0 0"
      "jacobianOplusXj e' (1, 2) = 0"
    by blast
  have d1: "((\<lambda>v. fst (DiffDrive_error_at e v y1 t1 x2 y2 t2)) has_real_derivative
        jacobianOplusXi e' (0, 0)) (at x1)"
    unfolding DiffDrive_error_at_eq [OF assms(1)] fst_conv snd_conv J(1)
    using assms(2) by (auto intro!: DERIV_abs_of derivative_eq_intros simp: algebra_simps)
  have d2: "((\<lambda>v. fst (DiffDrive_error_at e x1 v t1 x2 y2 t2)) has_real_derivative
        jacobianOplusXi e' (0, 1)) (at y1)"
    unfolding DiffDrive_error_at_eq [OF assms(1)] fst_conv snd_conv J(2)
    using assms(2) by (auto intro!: DERIV_abs_of derivative_eq_intros simp: algebra_simps)
  have d3: "((\<lambda>v. fst (DiffDrive_error_at e x1 y1 v x2 y2 t2)) has_real_derivative
        jacobianOplusXi e' (0, 2)) (at t1)"
    unfolding DiffDrive_error_at_eq [OF assms(1)] fst_conv snd_conv J(3)
    using assms(2) by (auto intro!: DERIV_abs_of derivative_eq_intros simp: algebra_simps)
  have d4: "((\<lambda>v. snd (DiffDrive_error_at e v y1 t1 x2 y2 t2)) has_real_derivative
        jacobianOplusXi e' (1, 0)) (at x1)"
    unfolding DiffDrive_error_at_eq [OF assms(1)] fst_conv snd_conv J(4)
    using assms(3) by (auto intro!: DERIV_penalty_of derivative_eq_intros simp: algebra_simps)
  have d5: "((\<lambda>v. snd (DiffDrive_error_at e x1 v t1 x2 y2 t2)) has_real_derivative
        jacobianOplusXi e' (1, 1)) (at y1)"
    unfolding DiffDrive_error_at_eq [OF assms(1)] fst_conv snd_conv J(5)
    using assms(3) by (auto intro!: DERIV_penalty_of derivative_eq_intros simp: algebra_simps)
  have d6: "((\<lambda>v. snd (DiffDrive_error_at e x1 y1 v x2 y2 t2)) has_real_derivative
        jacobianOplusXi e' (1, 2)) (at t1)"
    unfolding DiffDrive_error_at_eq [OF assms(1)] fst_conv snd_conv J(6)
    using assms(3) by (auto intro!: DERIV_penalty_of derivative_eq_intros simp: algebra_simps)
  have d7: "((\<lambda>v. fst (DiffDrive_error_at e x1 y1 t1 v y2 t2)) has_real_derivative
        jacobianOplusXj e' (0, 0)) (at x2)"
    unfolding DiffDrive_error_at_eq [OF assms(1)] fst_conv snd_conv J(7)
    using assms(2) by (auto intro!: DERIV_abs_of derivative_eq_intros simp: algebra_simps)
  have d8: "((\<lambda>v. fst (DiffDrive_error_at e x1 y1 t1 x2 v t2)) has_real_derivative
        jacobianOplusXj e' (0, 1)) (at y2)"
    unfolding DiffDrive_error_at_eq [OF assms(1)] fst_conv snd_conv J(8)
    using assms(2) by (auto intro!: DERIV_abs_of derivative_eq_intros simp: algebra_simps)
  have d9: "((\<lambda>v. fst (DiffDrive_error_at e x1 y1 t1 x2 y2 v)) has_real_derivative
        jacobianOplusXj e' (0, 2)) (at t2)"
    unfolding DiffDrive_error_at_eq [OF assms(1)] fst_conv snd_conv J(9)
    using assms(2) by (auto intro!: DERIV_abs_of derivative_eq_intros simp: algebra_simps)
  have d10: "((\<lambda>v. snd (DiffDrive_error_at e x1 y1 t1 v y2 t2)) has_real_derivative
        jacobianOplusXj e' (1, 0)) (at x2)"
    unfolding DiffDrive_error_at_eq [OF assms(1)] fst_conv snd_conv J(10)
    using assms(3) by (auto intro!: DERIV_penalty_of derivative_eq_intros simp: algebra_simps)
  have d11: "((\<lambda>v. snd (DiffDrive_error_at e x1 y1 t1 x2 v t2)) has_real_derivative
        jacobianOplusXj e' (1, 1)) (at y2)"
    unfolding DiffDrive_error_at_eq [OF assms(1)] fst_conv snd_conv J(11)
    using assms(3) by (auto intro!: DERIV_penalty_of derivative_eq_intros simp: algebra_simps)
  have d12: "((\<lambda>v. snd (DiffDrive_error_at e x1 y1 t1 x2 y2 v)) has_real_derivative
        jacobianOplusXj e' (1, 2)) (at t2)"
    unfolding DiffDrive_error_at_eq [OF assms(1)] fst_conv snd_conv J(12)
    using assms(3) by (auto intro!: DERIV_penalty_of derivative_eq_intros simp: algebra_simps)
  from returns lin d1 d2 d3 d4 d5 d6 d7 d8 d9 d10 d11 d12 show ?thesis by blast
qed

theorem diffdrive_jacobian_witness:
  "cfg (setTebConfig 1 (EdgeKinematicsDiffDrive zeroed)) \<noteq> NULL \<and>
   (cos 0 + cos 0) * (1 - 0) - (sin 0 + sin 0) * (- 1 - 0) \<noteq> (0::real) \<and>
   (- 1 - 0) * cos 0 + (1 - 0) * sin 0 \<noteq> (0::real) \<and>
   (\<exists>e'. DiffDrive_linearizeOplus
            (attach (setTebConfig 1 (EdgeKinematicsDiffDrive zeroed)) 0 0 0 (- 1) 1 0) = Inr e' \<and>
      jacobianOplusXi e' (0, 1) = - 2 \<and>
      jacobianOplusXi e' (1, 0) = 1 \<and>
      ((\<lambda>v. fst (DiffDrive_error_at (setTebConfig 1 (EdgeKinematicsDiffDrive zeroed))
                    0 v 0 (- 1) 1 0)) has_real_derivative - 2) (at 0) \<and>
      ((\<lambda>v. snd (DiffDrive_error_at (setTebConfig 1 (EdgeKinematicsDiffDrive zeroed))
                    v 0 0 (- 1) 1 0)) has_real_derivative 1) (at 0))"
  using diffdrive_jacobian
    [where e = "setTebConfig 1 (EdgeKinematicsDiffDrive zeroed)"
       and ?x1.0 = 0 and ?y1.0 = 0 and ?t1.0 = 0 and ?x2.0 = "- 1" and ?y2.0 = 1 and ?t2.0 = 0]
  by (auto simp add: sample_defs attach_def DiffDrive_linearizeOplus_def Let_def vminus_def
      sign_def penaltyBoundFromBelowDerivative_def)

section \<open>The finiteness assertion\<close>
























section \<open>Reading an edge from a stream\<close>

text \<open>
  C10. \<^verbatim>\<open>read\<close> of either edge returns true on every input stream, whatever the
  standard and whatever the edge held. On the empty stream both extractions fail, the
  stream is left failed, the edge is left as it was, and \<^verbatim>\<open>read\<close> still returns true:
  nothing that was extracted, or was not, is checked.
\<close>

theorem read_returns_true:
  "fst (DiffDrive_read std s e) \<and> fst (Carlike_read std s e) \<and>
   DiffDrive_read std \<lparr>content = [], failbit = False\<rparr> e
     = (True, \<lparr>content = [], failbit = True\<rparr>, e) \<and>
   Carlike_read std \<lparr>content = [], failbit = False\<rparr> e
     = (True, \<lparr>content = [], failbit = True\<rparr>, e)"
  by (simp add: DiffDrive_read_def Carlike_read_def extract_double_def Let_def split: prod.splits)

section \<open>Writing an edge and reading it back\<close>

text \<open>
  What \<^verbatim>\<open>read\<close> makes of the text that \<^verbatim>\<open>write\<close> produced on a fresh stream: the one
  number at the front, the weight, is taken for the measurement; the second extraction
  meets the word \<open>Error\<close> and fails.
\<close>

lemma DiffDrive_write_then_read:
  "DiffDrive_read std (reopen (snd (DiffDrive_write \<lparr>written = [], good = True\<rparr> e))) e'
   = (True,
      \<lparr>content = [Txt ''Error NH-Constraint: '', Num (fst (error e)),
                  Txt '', Error PosDriveDir: '', Num (snd (error e))], failbit = True\<rparr>,
      e'\<lparr>measurement := information e (0, 0),
         information := (information e')
           ((0, 0) := (case std of Cxx03 \<Rightarrow> information e' (0, 0) | Cxx11 \<Rightarrow> 0))\<rparr>)"
  by (simp add: DiffDrive_read_def DiffDrive_write_def reopen_def insert_num_def insert_txt_def
      extract_double_def Let_def isspace_def split: cxx.splits)

lemma Carlike_write_then_read:
  "Carlike_read std (reopen (snd (Carlike_write \<lparr>written = [], good = True\<rparr> e))) e'
   = (True,
      \<lparr>content = [Txt ''Error NH-Constraint: '', Num (fst (error e)),
                  Txt '', Error PosDriveDir: '', Num (snd (error e))], failbit = True\<rparr>,
      e'\<lparr>measurement := information e (0, 0),
         information := (information e')
           ((0, 0) := (case std of Cxx03 \<Rightarrow> information e' (0, 0) | Cxx11 \<Rightarrow> 0))\<rparr>)"
  by (simp add: Carlike_read_def Carlike_write_def reopen_def insert_num_def insert_txt_def
      extract_double_def Let_def isspace_def split: cxx.splits)

text \<open>
  C7. An edge with measurement 0 and weight 1000 is written to a fresh stream, and the
  text is read into a newly constructed edge. \<^verbatim>\<open>write\<close> and \<^verbatim>\<open>read\<close> both return true,
  the stream ends failed, and the edge read has measurement 1000 and weight 0: neither
  field is restored. The same holds of the car-like edge.
\<close>

theorem write_read_loses_fields:
  "(\<exists>os s e2.
      DiffDrive_write \<lparr>written = [], good = True\<rparr>
        ((EdgeKinematicsDiffDrive zeroed)\<lparr>information := (\<lambda>_. 0)((0, 0) := 1000)\<rparr>) = (True, os) \<and>
      DiffDrive_read std (reopen os) (EdgeKinematicsDiffDrive zeroed) = (True, s, e2) \<and>
      failbit s \<and> measurement e2 = 1000 \<and> information e2 (0, 0) = 0) \<and>
   (\<exists>os s e2.
      Carlike_write \<lparr>written = [], good = True\<rparr>
        ((EdgeKinematicsCarlike zeroed)\<lparr>information := (\<lambda>_. 0)((0, 0) := 1000)\<rparr>) = (True, os) \<and>
      Carlike_read std (reopen os) (EdgeKinematicsCarlike zeroed) = (True, s, e2) \<and>
      failbit s \<and> measurement e2 = 1000 \<and> information e2 (0, 0) = 0) \<and>
   measurement ((EdgeKinematicsDiffDrive zeroed)\<lparr>information := (\<lambda>_. 0)((0, 0) := 1000)\<rparr>) = 0 \<and>
   information ((EdgeKinematicsDiffDrive zeroed)\<lparr>information := (\<lambda>_. 0)((0, 0) := 1000)\<rparr>) (0, 0)
     = 1000"
  by (simp add: DiffDrive_read_def DiffDrive_write_def Carlike_read_def Carlike_write_def
      reopen_def insert_num_def insert_txt_def extract_double_def Let_def isspace_def
      sample_defs split: cxx.splits)

end
